theory Spec2Isabelle
  imports Main
begin

section \<open>Boundary operators of the matmul-parallel region (mappings.py)\<close>

text \<open>
  The module defines five \<^verbatim>\<open>torch.autograd.Function\<close> classes. Each has the static methods
  \<^verbatim>\<open>symbolic\<close>, \<^verbatim>\<open>forward\<close> and \<^verbatim>\<open>backward\<close>, and each method is a composition of at most
  four outside calls: the registry lookup \<^verbatim>\<open>DistributedManager().group("model_parallel")\<close> and
  the helpers \<^verbatim>\<open>_reduce\<close>, \<^verbatim>\<open>_split\<close>, \<^verbatim>\<open>_gather\<close> imported from
  \<^verbatim>\<open>physicsnemo.sym.distributed.helpers\<close>. The methods never inspect the tensor, the dimension
  or the group handle, so the embedding keeps these three as type parameters \<open>'t\<close>, \<open>'d\<close>, \<open>'g\<close>.
\<close>

subsection \<open>Exceptions and effects\<close>

text \<open>
  A Python exception is a value. \<open>AttributeError\<close> is what reading \<^verbatim>\<open>ctx.dim\<close> raises when the
  attribute was never set; \<open>External\<close> stands for whatever an outside call raises.
\<close>

datatype error = AttributeError string | External string

text \<open>
  An outside call may communicate with the other ranks, so it is a function of the state \<open>'s\<close> of
  the world outside the module: it returns either an exception or a value, and the next state.
\<close>

type_synonym ('s, 'a) comp = "'s \<Rightarrow> (error + 'a) \<times> 's"

definition returns :: "'a \<Rightarrow> ('s, 'a) comp" where
  "returns a = (\<lambda>s. (Inr a, s))"

definition raises :: "error \<Rightarrow> ('s, 'a) comp" where
  "raises e = (\<lambda>s. (Inl e, s))"

text \<open>Sequencing: an exception of the first computation ends the whole, in the state reached.\<close>

definition andthen :: "('s, 'a) comp \<Rightarrow> ('a \<Rightarrow> ('s, 'b) comp) \<Rightarrow> ('s, 'b) comp" where
  "andthen m f = (\<lambda>s. case m s of (Inl e, s') \<Rightarrow> (Inl e, s') | (Inr a, s') \<Rightarrow> f a s')"

text \<open>One computation after another has returned, whatever it returned.\<close>

definition followed_by :: "('s, 'a) comp \<Rightarrow> ('s, 'b) comp \<Rightarrow> ('s, 'b) comp" where
  "followed_by m m' = andthen m (\<lambda>a. m')"

subsection \<open>The outside calls\<close>

text \<open>
  The four imported callables, taken as parameters:
  \<open>group env name\<close> is \<^verbatim>\<open>DistributedManager().group(name)\<close>,
  \<open>reduce env x g\<close> is \<^verbatim>\<open>_reduce(x, group=g)\<close>,
  \<open>split env x d g\<close> is \<^verbatim>\<open>_split(x, d, group=g)\<close> and
  \<open>gather env x d g\<close> is \<^verbatim>\<open>_gather(x, d, group=g)\<close>.
\<close>

record ('t, 'd, 'g, 's) env =
  group :: "string \<Rightarrow> ('s, 'g) comp"
  reduce :: "'t \<Rightarrow> 'g \<Rightarrow> ('s, 't) comp"
  split :: "'t \<Rightarrow> 'd \<Rightarrow> 'g \<Rightarrow> ('s, 't) comp"
  gather :: "'t \<Rightarrow> 'd \<Rightarrow> 'g \<Rightarrow> ('s, 't) comp"

text \<open>
  The autograd context object \<^verbatim>\<open>ctx\<close>. The module sets and reads one attribute, \<^verbatim>\<open>dim\<close>;
  \<open>None\<close> is the attribute not set.
\<close>

record 'd ctx =
  dim :: "'d option"

definition getattr_dim :: "'d ctx \<Rightarrow> ('s, 'd) comp" where
  "getattr_dim c = (case dim c of None \<Rightarrow> raises (AttributeError ''dim'') | Some d \<Rightarrow> returns d)"

subsection \<open>\_CopyToMatmulParallelRegion\<close>

definition copy_symbolic :: "('t, 'd, 'g, 's) env \<Rightarrow> 'gr \<Rightarrow> 't \<Rightarrow> ('s, 't) comp" where
  "copy_symbolic env graph input' = returns input'"

definition copy_forward :: "('t, 'd, 'g, 's) env \<Rightarrow> 'd ctx \<Rightarrow> 't \<Rightarrow> ('s, 't) comp" where
  "copy_forward env c input' = returns input'"

definition copy_backward :: "('t, 'd, 'g, 's) env \<Rightarrow> 'd ctx \<Rightarrow> 't \<Rightarrow> ('s, 't) comp" where
  "copy_backward env c grad_output =
     andthen (group env ''model_parallel'') (\<lambda>g. reduce env grad_output g)"

subsection \<open>\_ReduceFromMatmulParallelRegion\<close>

definition reduce_symbolic :: "('t, 'd, 'g, 's) env \<Rightarrow> 'gr \<Rightarrow> 't \<Rightarrow> ('s, 't) comp" where
  "reduce_symbolic env graph input' =
     andthen (group env ''model_parallel'') (\<lambda>g. reduce env input' g)"

definition reduce_forward :: "('t, 'd, 'g, 's) env \<Rightarrow> 'd ctx \<Rightarrow> 't \<Rightarrow> ('s, 't) comp" where
  "reduce_forward env c input' =
     andthen (group env ''model_parallel'') (\<lambda>g. reduce env input' g)"

definition reduce_backward :: "('t, 'd, 'g, 's) env \<Rightarrow> 'd ctx \<Rightarrow> 't \<Rightarrow> ('s, 't) comp" where
  "reduce_backward env c grad_output = returns grad_output"

subsection \<open>\_ScatterToMatmulParallelRegion\<close>

text \<open>
  A \<^verbatim>\<open>forward\<close> that assigns \<^verbatim>\<open>ctx.dim\<close> returns the context after the assignment together with
  the computation of its result: the assignment comes first and happens whether or not the
  outside calls raise. In a call the arguments are evaluated left to right, so \<^verbatim>\<open>backward\<close>
  reads \<^verbatim>\<open>ctx.dim\<close> before it looks the group up. The tuple \<^verbatim>\<open>(t, None)\<close> is a pair whose second
  component is an absent gradient.
\<close>

definition scatter_symbolic :: "('t, 'd, 'g, 's) env \<Rightarrow> 'gr \<Rightarrow> 't \<Rightarrow> 'd \<Rightarrow> ('s, 't) comp" where
  "scatter_symbolic env graph input' dim' =
     andthen (group env ''model_parallel'') (\<lambda>g. split env input' dim' g)"

definition scatter_forward ::
  "('t, 'd, 'g, 's) env \<Rightarrow> 'd ctx \<Rightarrow> 't \<Rightarrow> 'd \<Rightarrow> 'd ctx \<times> ('s, 't) comp" where
  "scatter_forward env c input' dim' =
     (c\<lparr>dim := Some dim'\<rparr>,
      andthen (group env ''model_parallel'') (\<lambda>g. split env input' dim' g))"

definition scatter_backward ::
  "('t, 'd, 'g, 's) env \<Rightarrow> 'd ctx \<Rightarrow> 't \<Rightarrow> ('s, 't \<times> 't option) comp" where
  "scatter_backward env c grad_output =
     andthen (getattr_dim c) (\<lambda>d.
     andthen (group env ''model_parallel'') (\<lambda>g.
     andthen (gather env grad_output d g) (\<lambda>t.
     returns (t, None))))"

subsection \<open>\_GatherFromMatmulParallelRegion\<close>

definition gather_symbolic :: "('t, 'd, 'g, 's) env \<Rightarrow> 'gr \<Rightarrow> 't \<Rightarrow> 'd \<Rightarrow> ('s, 't) comp" where
  "gather_symbolic env graph input' dim' =
     andthen (group env ''model_parallel'') (\<lambda>g. gather env input' dim' g)"

definition gather_forward ::
  "('t, 'd, 'g, 's) env \<Rightarrow> 'd ctx \<Rightarrow> 't \<Rightarrow> 'd \<Rightarrow> 'd ctx \<times> ('s, 't) comp" where
  "gather_forward env c input' dim' =
     (c\<lparr>dim := Some dim'\<rparr>,
      andthen (group env ''model_parallel'') (\<lambda>g. gather env input' dim' g))"

definition gather_backward ::
  "('t, 'd, 'g, 's) env \<Rightarrow> 'd ctx \<Rightarrow> 't \<Rightarrow> ('s, 't \<times> 't option) comp" where
  "gather_backward env c grad_output =
     andthen (getattr_dim c) (\<lambda>d.
     andthen (group env ''model_parallel'') (\<lambda>g.
     andthen (split env grad_output d g) (\<lambda>t.
     returns (t, None))))"

subsection \<open>\_GatherWithinMatmulParallelRegion\<close>

definition gather_within_symbolic ::
  "('t, 'd, 'g, 's) env \<Rightarrow> 'gr \<Rightarrow> 't \<Rightarrow> 'd \<Rightarrow> ('s, 't) comp" where
  "gather_within_symbolic env graph input' dim' =
     andthen (group env ''model_parallel'') (\<lambda>g. gather env input' dim' g)"

definition gather_within_forward ::
  "('t, 'd, 'g, 's) env \<Rightarrow> 'd ctx \<Rightarrow> 't \<Rightarrow> 'd \<Rightarrow> 'd ctx \<times> ('s, 't) comp" where
  "gather_within_forward env c input' dim' =
     (c\<lparr>dim := Some dim'\<rparr>,
      andthen (group env ''model_parallel'') (\<lambda>g. gather env input' dim' g))"

definition gather_within_backward ::
  "('t, 'd, 'g, 's) env \<Rightarrow> 'd ctx \<Rightarrow> 't \<Rightarrow> ('s, 't \<times> 't option) comp" where
  "gather_within_backward env c grad_output =
     andthen (group env ''model_parallel'') (\<lambda>g.
     andthen (reduce env grad_output g) (\<lambda>red.
     andthen (getattr_dim c) (\<lambda>d.
     andthen (group env ''model_parallel'') (\<lambda>g'.
     andthen (split env red d g') (\<lambda>t.
     returns (t, None))))))"

subsection \<open>Helper functions\<close>

text \<open>
  The five module-level functions call \<^verbatim>\<open>apply\<close> of their class. The autograd engine creates
  a context object for the call, runs \<^verbatim>\<open>forward\<close> on it and keeps it for the one \<^verbatim>\<open>backward\<close> of
  that call; the model of \<^verbatim>\<open>apply\<close> is \<^verbatim>\<open>forward\<close> on a context without attributes.
\<close>

definition new_ctx :: "'d ctx" where
  "new_ctx = \<lparr>dim = None\<rparr>"

definition copy_to_matmul_parallel_region :: "('t, 'd, 'g, 's) env \<Rightarrow> 't \<Rightarrow> ('s, 't) comp" where
  "copy_to_matmul_parallel_region env input' = copy_forward env new_ctx input'"

definition reduce_from_matmul_parallel_region :: "('t, 'd, 'g, 's) env \<Rightarrow> 't \<Rightarrow> ('s, 't) comp" where
  "reduce_from_matmul_parallel_region env input' = reduce_forward env new_ctx input'"

definition scatter_to_matmul_parallel_region ::
  "('t, 'd, 'g, 's) env \<Rightarrow> 't \<Rightarrow> 'd \<Rightarrow> 'd ctx \<times> ('s, 't) comp" where
  "scatter_to_matmul_parallel_region env input' dim' = scatter_forward env new_ctx input' dim'"

definition gather_from_matmul_parallel_region ::
  "('t, 'd, 'g, 's) env \<Rightarrow> 't \<Rightarrow> 'd \<Rightarrow> 'd ctx \<times> ('s, 't) comp" where
  "gather_from_matmul_parallel_region env input' dim' = gather_forward env new_ctx input' dim'"

definition gather_within_matmul_parallel_region ::
  "('t, 'd, 'g, 's) env \<Rightarrow> 't \<Rightarrow> 'd \<Rightarrow> 'd ctx \<times> ('s, 't) comp" where
  "gather_within_matmul_parallel_region env input' dim' =
     gather_within_forward env new_ctx input' dim'"

section \<open>Observing the outside calls\<close>

text \<open>
  To state which outside calls a method makes, in which order and with which arguments, an
  environment is wrapped so that every outside call appends an event to a log kept beside the
  state: the call with its arguments, and the exception it raised, if any.
\<close>

datatype ('t, 'd) call =
  Group_call string | Reduce_call 't | Split_call 't 'd | Gather_call 't 'd

type_synonym ('t, 'd) event = "('t, 'd) call \<times> error option"

definition outcome :: "error + 'a \<Rightarrow> error option" where
  "outcome r = (case r of Inl e \<Rightarrow> Some e | Inr a \<Rightarrow> None)"

definition logging ::
  "('t, 'd) call \<Rightarrow> ('s, 'a) comp \<Rightarrow> ('s \<times> ('t, 'd) event list, 'a) comp" where
  "logging c m = (\<lambda>(s, evs). case m s of (r, s') \<Rightarrow> (r, (s', evs @ [(c, outcome r)])))"

definition logged ::
  "('t, 'd, 'g, 's) env \<Rightarrow> ('t, 'd, 'g, 's \<times> ('t, 'd) event list) env" where
  "logged env =
     \<lparr>group = (\<lambda>name. logging (Group_call name) (group env name)),
      reduce = (\<lambda>x g. logging (Reduce_call x) (reduce env x g)),
      split = (\<lambda>x d g. logging (Split_call x d) (split env x d g)),
      gather = (\<lambda>x d g. logging (Gather_call x d) (gather env x d g))\<rparr>"

definition succeeded :: "('t, 'd) event \<Rightarrow> bool" where
  "succeeded ev = (snd ev = None)"

text \<open>
  A result and a log are in the pass-through relation when the result is an exception exactly
  if the last outside call raised, that exception is the one returned, and every earlier outside
  call succeeded (so nothing was called again after a failure).
\<close>

fun pass_through :: "error + 'a \<Rightarrow> ('t, 'd) event list \<Rightarrow> bool" where
  "pass_through (Inr a) evs = list_all succeeded evs"
| "pass_through (Inl e) evs =
     (evs \<noteq> [] \<and> snd (last evs) = Some e \<and> list_all succeeded (butlast evs))"

text \<open>
  \<open>faithful m_logged m s\<close>: started in state \<open>s\<close> with an empty log, the method run in the
  wrapped environment returns what the method run in the environment itself returns, and its
  result and log are in the pass-through relation.
\<close>

definition faithful ::
  "('s \<times> ('t, 'd) event list, 'a) comp \<Rightarrow> ('s, 'a) comp \<Rightarrow> 's \<Rightarrow> bool" where
  "faithful m_logged m s =
     (case m_logged (s, []) of (r, (s', evs)) \<Rightarrow> (r, s') = m s \<and> pass_through r evs)"

definition events :: "('s \<times> ('t, 'd) event list, 'a) comp \<Rightarrow> 's \<Rightarrow> ('t, 'd) event list" where
  "events m_logged s = snd (snd (m_logged (s, [])))"

text \<open>The dimension an outside call was given, if it takes one.\<close>

fun call_dim :: "('t, 'd) call \<Rightarrow> 'd option" where
  "call_dim (Group_call name) = None"
| "call_dim (Reduce_call x) = None"
| "call_dim (Split_call x d) = Some d"
| "call_dim (Gather_call x d) = Some d"

definition uses_dim :: "'d \<Rightarrow> ('t, 'd) event \<Rightarrow> bool" where
  "uses_dim d ev = (case call_dim (fst ev) of None \<Rightarrow> True | Some d' \<Rightarrow> d' = d)"

text \<open>
  An environment in which the lookup of "model\_parallel" succeeds and every collective on the
  group found returns its argument, without touching the outside state: a group of one rank.
\<close>

definition single_rank :: "('t, 'd, 'g, 's) env \<Rightarrow> bool" where
  "single_rank env =
     (\<forall>s. \<exists>g. group env ''model_parallel'' s = (Inr g, s)
        \<and> (\<forall>x s'. reduce env x g s' = (Inr x, s'))
        \<and> (\<forall>x d s'. split env x d g s' = (Inr x, s'))
        \<and> (\<forall>x d s'. gather env x d g s' = (Inr x, s')))"

section \<open>A simulated group\<close>

text \<open>
  Modelled from the spec: the tensor type is not defined in the module, which passes tensors on
  without looking into them. The specification calls a tensor "a dense n-dimensional array of
  numeric values": a scalar, or a list of arrays of one dimension less.
\<close>

datatype 'a tensor = Scalar 'a | Arr "'a tensor list"

fun elems :: "'a tensor \<Rightarrow> 'a tensor list" where
  "elems (Scalar a) = []"
| "elems (Arr xs) = xs"

text \<open>\<open>has_shape sh t\<close>: the array \<open>t\<close> is rectangular with the axis lengths \<open>sh\<close>.\<close>

fun has_shape :: "nat list \<Rightarrow> 'a tensor \<Rightarrow> bool" where
  "has_shape [] (Scalar a) = True"
| "has_shape (n # sh) (Arr xs) = (length xs = n \<and> list_all (has_shape sh) xs)"
| "has_shape sh t = False"

text \<open>
  Modelled from the spec: the helper \<^verbatim>\<open>_split\<close> of \<^verbatim>\<open>physicsnemo.sym.distributed.helpers\<close> is
  not among the sources. The specification gives \<^verbatim>\<open>split(tensor, dim, group)\<close> as "partition a
  tensor along a dimension, return this rank's shard": of \<open>n\<close> equal consecutive parts along axis
  \<open>d\<close>, part number \<open>r\<close>. The specification leaves a dimension that is no axis of the tensor
  undefined and considers axis lengths divisible by \<open>n\<close> only; outside of that the equations
  merely keep the function total (a tensor without axis \<open>d\<close> is left as it is, a remainder of
  the division is dropped).
\<close>

fun split_shard :: "nat \<Rightarrow> nat \<Rightarrow> nat \<Rightarrow> 'a tensor \<Rightarrow> 'a tensor" where
  "split_shard n r d (Scalar a) = Scalar a"
| "split_shard n r 0 (Arr xs) = Arr (take (length xs div n) (drop (r * (length xs div n)) xs))"
| "split_shard n r (Suc d) (Arr xs) = Arr (map (split_shard n r d) xs)"

text \<open>
  Modelled from the spec: the helper \<^verbatim>\<open>_gather\<close> of \<^verbatim>\<open>physicsnemo.sym.distributed.helpers\<close> is
  not among the sources. The specification gives \<^verbatim>\<open>gather(tensor, dim, group)\<close> as "full tensor,
  shards concatenated along dim in rank order"; the argument is the list of the ranks' shards
  in rank order. The first shard gives the lengths of the axes before \<open>d\<close>. Where the
  specification says nothing (no rank at all, a first shard without axis \<open>d\<close>) the equations
  merely keep the function total.
\<close>

fun concat_dim :: "nat \<Rightarrow> 'a tensor list \<Rightarrow> 'a tensor" where
  "concat_dim d [] = Arr []"
| "concat_dim d (Scalar a # ts) = Scalar a"
| "concat_dim 0 (Arr xs # ts) = Arr (xs @ concat (map elems ts))"
| "concat_dim (Suc d) (Arr xs # ts) =
     Arr (map (\<lambda>i. concat_dim d (xs ! i # map (\<lambda>t. elems t ! i) ts)) [0..<length xs])"

text \<open>
  Elementwise sum of two arrays of the same shape (for arrays of different shapes, which an
  all-reduce does not meet, the equations merely keep the function total).
\<close>

function (sequential) add_tensor :: "'a::plus tensor \<Rightarrow> 'a tensor \<Rightarrow> 'a tensor" where
  "add_tensor (Scalar a) (Scalar b) = Scalar (a + b)"
| "add_tensor (Arr xs) (Arr ys) = Arr (map (\<lambda>(x, y). add_tensor x y) (zip xs ys))"
| "add_tensor x y = x"
  by pat_completeness auto
termination
proof (relation "measure (\<lambda>(x, y). size x)")
  show "wf (measure (\<lambda>(x, y). size x))" by simp
next
  fix xs ys :: "'a tensor list" and z x y
  assume "(x, y) = z" "z \<in> set (zip xs ys)"
  then have "x \<in> set xs" by (auto dest: set_zip_leftD)
  then have "size x \<le> size_list size xs" by (rule size_list_estimation') simp
  then show "((x, y), (Arr xs, Arr ys)) \<in> measure (\<lambda>(x, y). size x)" by simp
qed

text \<open>
  Modelled from the spec: the helper \<^verbatim>\<open>_reduce\<close> of \<^verbatim>\<open>physicsnemo.sym.distributed.helpers\<close> is
  not among the sources. The specification gives \<^verbatim>\<open>reduce(tensor, group)\<close> as "same shape, summed
  across group"; the argument is the list of the ranks' tensors in rank order, added up from
  rank 0 on. Nothing is assumed of the addition of the elements.
\<close>

fun sum_tensors :: "'a::plus tensor list \<Rightarrow> 'a tensor" where
  "sum_tensors [] = Arr []"
| "sum_tensors (t # ts) = foldl add_tensor t ts"

text \<open>
  The handle of a simulated group tells a rank the size of the group and its own rank in it.
\<close>

record sim_group =
  gsize :: nat
  grank :: nat

text \<open>
  Modelled from the spec: the registry and the three collectives as seen from rank \<open>r\<close> of a
  simulated group. \<open>peers\<close> lists, in rank order, the tensor each rank of the group passes to
  the collective that all ranks enter together; the entry of the calling rank is the argument
  of its own call. The group has as many ranks as \<open>peers\<close> has entries, it is registered under
  the name "model\_parallel" only, and the simulated calls neither fail nor change the outside
  state. An axis is a natural number, 0 the outermost.
\<close>

definition sim_env :: "nat \<Rightarrow> 'a::plus tensor list \<Rightarrow> ('a tensor, nat, sim_group, 's) env" where
  "sim_env r peers =
     \<lparr>group = (\<lambda>name. if name = ''model_parallel''
                      then returns \<lparr>gsize = length peers, grank = r\<rparr>
                      else raises (External name)),
      reduce = (\<lambda>x g. returns (sum_tensors (peers[grank g := x]))),
      split = (\<lambda>x d g. returns (split_shard (gsize g) (grank g) d x)),
      gather = (\<lambda>x d g. returns (concat_dim d (peers[grank g := x])))\<rparr>"

text \<open>The inner product of two arrays of the same shape.\<close>

function (sequential) dot :: "'a::comm_semiring_0 tensor \<Rightarrow> 'a tensor \<Rightarrow> 'a" where
  "dot (Scalar a) (Scalar b) = a * b"
| "dot (Arr xs) (Arr ys) = sum_list (map (\<lambda>(x, y). dot x y) (zip xs ys))"
| "dot x y = 0"
  by pat_completeness auto
termination
proof (relation "measure (\<lambda>(x, y). size x)")
  show "wf (measure (\<lambda>(x, y). size x))" by simp
next
  fix xs ys :: "'a tensor list" and z x y
  assume "(x, y) = z" "z \<in> set (zip xs ys)"
  then have "x \<in> set xs" by (auto dest: set_zip_leftD)
  then have "size x \<le> size_list size xs" by (rule size_list_estimation') simp
  then show "((x, y), (Arr xs, Arr ys)) \<in> measure (\<lambda>(x, y). size x)" by simp
qed

section \<open>Example data\<close>

text \<open>Concrete environments and tensors, with every type fixed, for the worked instances.\<close>

type_synonym test_env = "(int tensor, nat, sim_group, unit) env"

text \<open>An environment whose registry answers and whose collectives all raise.\<close>

definition timeout_env :: "('t, 'd, unit, 's) env" where
  "timeout_env =
     \<lparr>group = (\<lambda>name. returns ()),
      reduce = (\<lambda>x g. raises (External ''timeout'')),
      split = (\<lambda>x d g. raises (External ''timeout'')),
      gather = (\<lambda>x d g. raises (External ''timeout''))\<rparr>"

text \<open>An environment whose registry does not know the group.\<close>

definition no_group_env :: "('t, 'd, unit, 's) env" where
  "no_group_env =
     \<lparr>group = (\<lambda>name. raises (External ''group not found'')),
      reduce = (\<lambda>x g. returns x),
      split = (\<lambda>x d g. returns x),
      gather = (\<lambda>x d g. returns x)\<rparr>"

definition example_columns :: "int tensor list" where
  "example_columns = [Arr [Arr [Scalar 1]], Arr [Arr [Scalar 2]]]"

definition example_grads :: "int tensor list" where
  "example_grads = [Arr [Scalar 1, Scalar 2, Scalar 3, Scalar 4],
                    Arr [Scalar 10, Scalar 20, Scalar 30, Scalar 40]]"

definition example_input :: "int tensor list" where
  "example_input = [Scalar 1, Scalar 2, Scalar 3, Scalar 4]"

definition example_matrix :: "int tensor" where
  "example_matrix = Arr [Arr [Scalar 1, Scalar 2, Scalar 3, Scalar 4],
                         Arr [Scalar 5, Scalar 6, Scalar 7, Scalar 8]]"

definition example_shards :: "int tensor list" where
  "example_shards = [Arr [Arr [Scalar 1, Scalar 0], Arr [Scalar 0, Scalar 1]],
                     Arr [Arr [Scalar 2, Scalar 0], Arr [Scalar 0, Scalar 2]]]"

section \<open>Properties\<close>

subsection \<open>Unfolding facts\<close>

lemmas comp_defs = andthen_def returns_def raises_def getattr_dim_def

lemmas op_defs =
  copy_symbolic_def copy_forward_def copy_backward_def
  reduce_symbolic_def reduce_forward_def reduce_backward_def
  scatter_symbolic_def scatter_forward_def scatter_backward_def
  gather_symbolic_def gather_forward_def gather_backward_def
  gather_within_symbolic_def gather_within_forward_def gather_within_backward_def

lemma sim_group_lookup:
  "group (sim_env r peers) ''model_parallel'' s = (Inr \<lparr>gsize = length peers, grank = r\<rparr>, s)"
  by (simp add: sim_env_def returns_def)

lemma sim_reduce: "reduce (sim_env r peers) x g s = (Inr (sum_tensors (peers[grank g := x])), s)"
  by (simp add: sim_env_def returns_def)

lemma sim_split: "split (sim_env r peers) x d g s = (Inr (split_shard (gsize g) (grank g) d x), s)"
  by (simp add: sim_env_def returns_def)

lemma sim_gather: "gather (sim_env r peers) x d g s = (Inr (concat_dim d (peers[grank g := x])), s)"
  by (simp add: sim_env_def returns_def)

lemmas sim_calls = sim_group_lookup sim_reduce sim_split sim_gather

lemmas log_defs = faithful_def events_def logged_def logging_def outcome_def succeeded_def uses_dim_def

subsection \<open>Facts about the simulated collectives\<close>

lemma split_shard_one: "split_shard (Suc 0) 0 d t = t"
  by (induction "Suc 0" "0::nat" d t rule: split_shard.induct) (simp_all add: map_idI)

lemma concat_dim_one: "concat_dim d [t] = t"
proof (induction t arbitrary: d)
  case (Scalar a)
  show ?case by simp
next
  case (Arr xs)
  show ?case
  proof (cases d)
    case 0
    then show ?thesis by simp
  next
    case (Suc d')
    have "map (\<lambda>i. concat_dim d' [xs ! i]) [0..<length xs] = map (\<lambda>i. xs ! i) [0..<length xs]"
      by (rule map_cong) (simp_all add: Arr.IH)
    then show ?thesis using Suc by (simp add: map_nth)
  qed
qed

lemma single_rank_sim: "single_rank (sim_env 0 [p])"
  by (simp add: single_rank_def sim_calls split_shard_one concat_dim_one)

lemma concat_take_drop:
  "concat (map (\<lambda>i. take k (drop (i * k) xs)) [0..<n]) = take (n * k) xs"
proof (induction n)
  case 0
  show ?case by simp
next
  case (Suc n)
  have "take (n * k) xs @ take k (drop (n * k) xs) = take (n * k + k) xs"
    by (simp add: take_add)
  with Suc show ?case by (simp add: add.commute)
qed

lemma concat_dim_split_shard_0:
  assumes "0 < n" "n dvd length xs"
  shows "concat_dim 0 (map (\<lambda>i. split_shard n i 0 (Arr xs)) [0..<n]) = Arr xs"
proof -
  let ?k = "length xs div n"
  from assms have len: "n * ?k = length xs" by simp
  from assms(1) have "[0..<n] = 0 # [1..<n]" by (simp add: upt_conv_Cons)
  then have "concat_dim 0 (map (\<lambda>i. split_shard n i 0 (Arr xs)) [0..<n])
      = Arr (concat (map elems (map (\<lambda>i. split_shard n i 0 (Arr xs)) [0..<n])))"
    by simp
  also have "map elems (map (\<lambda>i. split_shard n i 0 (Arr xs)) [0..<n])
      = map (\<lambda>i. take ?k (drop (i * ?k) xs)) [0..<n]"
    by simp
  also have "concat \<dots> = take (n * ?k) xs" by (rule concat_take_drop)
  finally show ?thesis using len by simp
qed

lemma has_shape_Cons:
  "has_shape (m # sh) t \<longleftrightarrow> (\<exists>xs. t = Arr xs \<and> length xs = m \<and> (\<forall>x\<in>set xs. has_shape sh x))"
  by (cases t) (auto simp: list_all_iff)

lemma sum_list_zip_nth:
  fixes f :: "'b \<Rightarrow> 'c \<Rightarrow> 'a::comm_monoid_add"
  assumes "length xs = length ys"
  shows "sum_list (map (\<lambda>(x, y). f x y) (zip xs ys)) = (\<Sum>i<length xs. f (xs ! i) (ys ! i))"
  using assms by (simp add: sum_list_sum_nth atLeast0LessThan)

lemma sum_list_zip_concat:
  fixes f :: "'b \<Rightarrow> 'c \<Rightarrow> 'a::comm_monoid_add"
  assumes "\<forall>ys\<in>set yss. length ys = k"
  shows "sum_list (map (\<lambda>(x, y). f x y) (zip xs (concat yss)))
       = (\<Sum>r<length yss. sum_list (map (\<lambda>(x, y). f x y) (zip (take k (drop (r * k) xs)) (yss ! r))))"
  using assms
proof (induction yss arbitrary: xs)
  case Nil
  show ?case by simp
next
  case (Cons ys yss)
  from Cons.prems have k: "length ys = k" and rest: "\<forall>zs\<in>set yss. length zs = k" by simp_all
  have "zip xs (ys @ concat yss) = zip (take k xs) ys @ zip (drop k xs) (concat yss)"
    using k by (simp add: zip_append2)
  moreover have "sum_list (map (\<lambda>(x, y). f x y) (zip (drop k xs) (concat yss)))
      = (\<Sum>r<length yss. sum_list (map (\<lambda>(x, y). f x y)
            (zip (take k (drop (r * k) (drop k xs))) (yss ! r))))"
    by (rule Cons.IH [OF rest])
  ultimately show ?case
    unfolding concat.simps length_Cons sum.lessThan_Suc_shift
    by (simp add: add.commute)
qed

lemma dot_concat_split:
  fixes x :: "'a::comm_semiring_0 tensor"
  assumes "0 < n" "has_shape sh x" "d < length sh" "sh ! d = n * k"
    and "length gs = n" "\<forall>g\<in>set gs. has_shape (sh[d := k]) g"
  shows "dot x (concat_dim d gs) = (\<Sum>r<n. dot (split_shard n r d x) (gs ! r))"
  using assms(2-)
proof (induction d arbitrary: sh x gs)
  case 0
  from "0.prems"(2) obtain m sh' where sh: "sh = m # sh'" by (cases sh) auto
  with "0.prems" obtain xs where x: "x = Arr xs" and lx: "length xs = n * k"
    by (auto simp: has_shape_Cons)
  from "0.prems" sh have gsh: "\<forall>g\<in>set gs. \<exists>ys. g = Arr ys \<and> length ys = k"
    by (auto simp: has_shape_Cons)
  then have el: "\<forall>g\<in>set gs. g = Arr (elems g)" and lel: "\<forall>ys\<in>set (map elems gs). length ys = k"
    by auto
  from \<open>0 < n\<close> "0.prems"(4) obtain g0 rest where gs: "gs = g0 # rest" by (cases gs) auto
  with el have "g0 = Arr (elems g0)" by simp
  then have cc: "concat_dim 0 gs = Arr (concat (map elems gs))"
    using gs by (metis concat.simps(2) concat_dim.simps(3) list.simps(9))
  have kdiv: "length xs div n = k" using lx \<open>0 < n\<close> by simp
  have "dot x (concat_dim 0 gs) = sum_list (map (\<lambda>(a, b). dot a b) (zip xs (concat (map elems gs))))"
    by (simp add: x cc)
  also have "\<dots> = (\<Sum>r<length (map elems gs). sum_list (map (\<lambda>(a, b). dot a b)
        (zip (take k (drop (r * k) xs)) (map elems gs ! r))))"
    by (rule sum_list_zip_concat [OF lel])
  also have "\<dots> = (\<Sum>r<n. dot (split_shard n r 0 x) (gs ! r))"
  proof -
    have "\<And>r. r < n \<Longrightarrow> dot (split_shard n r 0 x) (gs ! r)
        = sum_list (map (\<lambda>(a, b). dot a b) (zip (take k (drop (r * k) xs)) (map elems gs ! r)))"
    proof -
      fix r assume r: "r < n"
      with "0.prems"(4) have "gs ! r \<in> set gs" by simp
      with el have "gs ! r = Arr (elems (gs ! r))" by blast
      then have "dot (split_shard n r 0 x) (gs ! r)
          = dot (Arr (take k (drop (r * k) xs))) (Arr (elems (gs ! r)))"
        by (simp add: x kdiv)
      then show "dot (split_shard n r 0 x) (gs ! r)
        = sum_list (map (\<lambda>(a, b). dot a b) (zip (take k (drop (r * k) xs)) (map elems gs ! r)))"
        using r "0.prems"(4) by simp
    qed
    then show ?thesis using "0.prems"(4) by simp
  qed
  finally show ?case .
next
  case (Suc d)
  from Suc.prems(2) obtain m sh' where sh: "sh = m # sh'" by (cases sh) auto
  with Suc.prems obtain xs where x: "x = Arr xs" and lx: "length xs = m"
    and xsh: "\<forall>y\<in>set xs. has_shape sh' y"
    by (auto simp: has_shape_Cons)
  from Suc.prems sh have d: "d < length sh'" and nk: "sh' ! d = n * k" by simp_all
  from Suc.prems sh have gsh: "\<forall>g\<in>set gs. \<exists>ys. g = Arr ys \<and> length ys = m
      \<and> (\<forall>y\<in>set ys. has_shape (sh'[d := k]) y)"
    by (auto simp: has_shape_Cons)
  then have el: "\<forall>g\<in>set gs. g = Arr (elems g)" and lel: "\<forall>g\<in>set gs. length (elems g) = m"
    and esh: "\<forall>g\<in>set gs. \<forall>y\<in>set (elems g). has_shape (sh'[d := k]) y"
    by auto
  from \<open>0 < n\<close> Suc.prems(4) obtain g0 rest where gs: "gs = g0 # rest" by (cases gs) auto
  let ?F = "\<lambda>i. concat_dim d (map (\<lambda>t. elems t ! i) gs)"
  from el gs have g0: "g0 = Arr (elems g0)" by simp
  from lel gs have l0: "length (elems g0) = m" by simp
  have "concat_dim (Suc d) (Arr (elems g0) # rest) = Arr (map ?F [0..<m])"
    using gs l0 by simp
  with g0 gs have cc: "concat_dim (Suc d) gs = Arr (map ?F [0..<m])" by simp
  have ih: "\<And>i. i < m \<Longrightarrow>
      dot (xs ! i) (?F i) = (\<Sum>r<n. dot (split_shard n r d (xs ! i)) (elems (gs ! r) ! i))"
  proof -
    fix i assume i: "i < m"
    with lx xsh have 1: "has_shape sh' (xs ! i)" by simp
    have 2: "length (map (\<lambda>t. elems t ! i) gs) = n" using Suc.prems(4) by simp
    have 3: "\<forall>g\<in>set (map (\<lambda>t. elems t ! i) gs). has_shape (sh'[d := k]) g"
      using esh lel i by auto
    have "dot (xs ! i) (?F i)
        = (\<Sum>r<n. dot (split_shard n r d (xs ! i)) (map (\<lambda>t. elems t ! i) gs ! r))"
      by (rule Suc.IH [OF 1 d nk 2 3])
    then show "dot (xs ! i) (?F i) = (\<Sum>r<n. dot (split_shard n r d (xs ! i)) (elems (gs ! r) ! i))"
      using Suc.prems(4) by simp
  qed
  have "dot x (concat_dim (Suc d) gs) = sum_list (map (\<lambda>(a, b). dot a b) (zip xs (map ?F [0..<m])))"
    by (simp add: x cc)
  also have "\<dots> = (\<Sum>i<length xs. dot (xs ! i) (map ?F [0..<m] ! i))"
    by (rule sum_list_zip_nth) (simp add: lx)
  also have "\<dots> = (\<Sum>i<m. dot (xs ! i) (?F i))"
    using lx by simp
  also have "\<dots> = (\<Sum>i<m. \<Sum>r<n. dot (split_shard n r d (xs ! i)) (elems (gs ! r) ! i))"
    using ih by simp
  also have "\<dots> = (\<Sum>r<n. \<Sum>i<m. dot (split_shard n r d (xs ! i)) (elems (gs ! r) ! i))"
    by (rule sum.swap)
  also have "\<dots> = (\<Sum>r<n. dot (split_shard n r (Suc d) x) (gs ! r))"
  proof -
    have "\<And>r. r < n \<Longrightarrow> dot (split_shard n r (Suc d) x) (gs ! r)
        = (\<Sum>i<m. dot (split_shard n r d (xs ! i)) (elems (gs ! r) ! i))"
    proof -
      fix r assume r: "r < n"
      with Suc.prems(4) have mem: "gs ! r \<in> set gs" by simp
      with el have e: "gs ! r = Arr (elems (gs ! r))" by blast
      from mem lel have le: "length (elems (gs ! r)) = m" by blast
      have "dot (split_shard n r (Suc d) x) (Arr (elems (gs ! r)))
          = sum_list (map (\<lambda>(a, b). dot a b) (zip (map (split_shard n r d) xs) (elems (gs ! r))))"
        by (simp add: x)
      also have "\<dots> = (\<Sum>i<length (map (split_shard n r d) xs).
            dot (map (split_shard n r d) xs ! i) (elems (gs ! r) ! i))"
        by (rule sum_list_zip_nth) (simp add: lx le)
      also have "\<dots> = (\<Sum>i<m. dot (split_shard n r d (xs ! i)) (elems (gs ! r) ! i))"
        using lx by simp
      finally show "dot (split_shard n r (Suc d) x) (gs ! r)
        = (\<Sum>i<m. dot (split_shard n r d (xs ! i)) (elems (gs ! r) ! i))"
        using e by simp
    qed
    then show ?thesis by simp
  qed
  finally show ?case .
qed

lemma dot_commute: "dot x y = dot y (x :: 'a::comm_semiring_0 tensor)"
proof (induction x y rule: dot.induct)
  case (1 a b)
  show ?case by (simp add: mult.commute)
next
  case (2 xs ys)
  have "zip ys xs = map (\<lambda>(a, b). (b, a)) (zip xs ys)" by (rule zip_commute)
  then have "map (\<lambda>(a, b). dot a b) (zip ys xs) = map (\<lambda>(a, b). dot b a) (zip xs ys)"
    by (simp add: case_prod_unfold)
  also have "\<dots> = map (\<lambda>(a, b). dot a b) (zip xs ys)"
  proof (rule map_cong)
    fix z assume z: "z \<in> set (zip xs ys)"
    obtain a b where ab: "z = (a, b)" by (cases z)
    with z have "dot a b = dot b a" by (intro "2.IH" [of z a b]) simp_all
    with ab show "(case z of (a, b) \<Rightarrow> dot b a) = (case z of (a, b) \<Rightarrow> dot a b)" by simp
  qed simp
  finally show ?case by simp
qed simp_all

lemma sum_list_upt: "sum_list (map f [0..<n]) = (\<Sum>r<n. f r)"
  for f :: "nat \<Rightarrow> 'a::comm_monoid_add"
  by (simp add: interv_sum_list_conv_sum_set_nat atLeast0LessThan)

subsection \<open>Every method passes errors through\<close>

text \<open>
  What \<open>faithful\<close> says of the method run in the environment itself: it raises exactly if one of
  the logged outside calls raised, and what it raises is what the last logged call raised.
\<close>

lemma faithful_raises_iff:
  assumes "faithful m_logged m s"
  shows "(\<exists>e. fst (m s) = Inl e) \<longleftrightarrow> \<not> list_all succeeded (events m_logged s)"
    and "fst (m s) = Inl e \<Longrightarrow> snd (last (events m_logged s)) = Some e"
proof -
  obtain r s' evs where run: "m_logged (s, []) = (r, (s', evs))"
    by (metis surj_pair)
  with assms have res: "m s = (r, s')" and pt: "pass_through r evs"
    by (simp_all add: faithful_def)
  from run have ev: "events m_logged s = evs" by (simp add: events_def)
  show "(\<exists>e. fst (m s) = Inl e) \<longleftrightarrow> \<not> list_all succeeded (events m_logged s)"
  proof (cases r)
    case (Inl e')
    with pt have "evs \<noteq> []" and "snd (last evs) = Some e'" by simp_all
    then have "last evs \<in> set evs" and "\<not> succeeded (last evs)"
      by (simp_all add: succeeded_def)
    then have "\<not> list_all succeeded evs" by (auto simp: list_all_iff)
    with Inl res ev show ?thesis by simp
  next
    case (Inr a)
    with pt res ev show ?thesis by simp
  qed
  show "snd (last (events m_logged s)) = Some e" if "fst (m s) = Inl e"
    using that res pt ev by (cases r) simp_all
qed

lemma faithful_copy_forward:
  "faithful (copy_forward (logged env) c x) (copy_forward env c x) s"
  by (simp add: op_defs comp_defs log_defs)

lemma faithful_copy_backward:
  "faithful (copy_backward (logged env) c g) (copy_backward env c g) s"
  by (simp add: op_defs comp_defs log_defs split: prod.splits sum.splits)

lemma faithful_reduce_forward:
  "faithful (reduce_forward (logged env) c x) (reduce_forward env c x) s"
  by (simp add: op_defs comp_defs log_defs split: prod.splits sum.splits)

lemma faithful_reduce_backward:
  "faithful (reduce_backward (logged env) c g) (reduce_backward env c g) s"
  by (simp add: op_defs comp_defs log_defs)

lemma faithful_scatter_forward:
  "faithful (snd (scatter_forward (logged env) c x d)) (snd (scatter_forward env c x d)) s"
  by (simp add: op_defs comp_defs log_defs split: prod.splits sum.splits)

lemma faithful_scatter_backward:
  "faithful (scatter_backward (logged env) (fst (scatter_forward (logged env) c x d)) g)
            (scatter_backward env (fst (scatter_forward env c x d)) g) s"
  by (simp add: op_defs comp_defs log_defs split: prod.splits sum.splits)

lemma faithful_gather_forward:
  "faithful (snd (gather_forward (logged env) c x d)) (snd (gather_forward env c x d)) s"
  by (simp add: op_defs comp_defs log_defs split: prod.splits sum.splits)

lemma faithful_gather_backward:
  "faithful (gather_backward (logged env) (fst (gather_forward (logged env) c x d)) g)
            (gather_backward env (fst (gather_forward env c x d)) g) s"
  by (simp add: op_defs comp_defs log_defs split: prod.splits sum.splits)

lemma faithful_gather_within_forward:
  "faithful (snd (gather_within_forward (logged env) c x d))
            (snd (gather_within_forward env c x d)) s"
  by (simp add: op_defs comp_defs log_defs split: prod.splits sum.splits)

lemma faithful_gather_within_backward:
  "faithful (gather_within_backward (logged env) (fst (gather_within_forward (logged env) c x d)) g)
            (gather_within_backward env (fst (gather_within_forward env c x d)) g) s"
  by (simp add: op_defs comp_defs log_defs split: prod.splits sum.splits)

subsection \<open>Only the recorded dimension is used\<close>

lemma events_scatter_backward:
  "list_all (uses_dim d) (events (scatter_backward (logged env) (fst (scatter_forward env c x d)) g) s)"
  by (simp add: op_defs comp_defs log_defs split: prod.splits sum.splits)

lemma events_gather_backward:
  "list_all (uses_dim d) (events (gather_backward (logged env) (fst (gather_forward env c x d)) g) s)"
  by (simp add: op_defs comp_defs log_defs split: prod.splits sum.splits)

lemma events_gather_within_backward:
  "list_all (uses_dim d)
     (events (gather_within_backward (logged env) (fst (gather_within_forward env c x d)) g) s)"
  by (simp add: op_defs comp_defs log_defs split: prod.splits sum.splits)

text \<open>
  No \<^verbatim>\<open>backward\<close> assigns to the context, so a second \<^verbatim>\<open>backward\<close> on the same context object is
  given the context the first one was given.
\<close>

lemma events_scatter_backward_twice:
  "list_all (uses_dim d)
     (events (followed_by (scatter_backward (logged env) (fst (scatter_forward env c x d)) g)
                          (scatter_backward (logged env) (fst (scatter_forward env c x d)) g')) s)"
  by (simp add: followed_by_def op_defs comp_defs log_defs split: prod.splits sum.splits)

lemma events_gather_backward_twice:
  "list_all (uses_dim d)
     (events (followed_by (gather_backward (logged env) (fst (gather_forward env c x d)) g)
                          (gather_backward (logged env) (fst (gather_forward env c x d)) g')) s)"
  by (simp add: followed_by_def op_defs comp_defs log_defs split: prod.splits sum.splits)

lemma events_gather_within_backward_twice:
  "list_all (uses_dim d)
     (events (followed_by
        (gather_within_backward (logged env) (fst (gather_within_forward env c x d)) g)
        (gather_within_backward (logged env) (fst (gather_within_forward env c x d)) g')) s)"
  by (simp add: followed_by_def op_defs comp_defs log_defs split: prod.splits sum.splits)

section \<open>The claims\<close>

text \<open>
  Claim C1. Scatter and Gather are adjoint to each other. In every environment, the backward of
  Scatter, run on the context its forward left for dimension \<open>d0\<close>, is the forward of Gather
  along \<open>d0\<close> applied to the gradient (paired with \<open>None\<close>), and the backward of Gather is the
  forward of Scatter in the same way. In a simulated group of \<open>n\<close> ranks, for a tensor \<open>x\<close> of
  shape \<open>sh\<close>, a valid axis \<open>d\<close> whose length is \<open>n * k\<close>, and tensors \<open>gs\<close> of the shard shape, one
  per rank: Scatter's forward yields the shards of \<open>x\<close> and its backward the concatenation of
  \<open>gs\<close>, Gather's forward yields the concatenation of \<open>gs\<close> and its backward the shards of \<open>x\<close>,
  and each backward is the adjoint of its forward for the inner product, summed over the
  ranks on the sharded side:
  \<open>\<Sum>r. \<langle>shard r of x, gs r\<rangle> = \<langle>x, concatenation of gs\<rangle>\<close>.
\<close>

theorem scatter_gather_adjoint:
  fixes x :: "'a::comm_semiring_0 tensor"
  shows "scatter_backward env (fst (scatter_forward env c x0 d0)) g
       = andthen (snd (gather_forward env c' g d0)) (\<lambda>u. returns (u, None))
   \<and> gather_backward env (fst (gather_forward env c x0 d0)) g
       = andthen (snd (scatter_forward env c' g d0)) (\<lambda>u. returns (u, None))
   \<and> (0 < n \<and> has_shape sh x \<and> d < length sh \<and> sh ! d = n * k
        \<and> length gs = n \<and> list_all (has_shape (sh[d := k])) gs \<longrightarrow>
       (\<forall>r<n.
          snd (scatter_forward (sim_env r gs) cs x d) s = (Inr (split_shard n r d x), s)
          \<and> scatter_backward (sim_env r gs) (fst (scatter_forward (sim_env r gs) cs x d)) (gs ! r) s
              = (Inr (concat_dim d gs, None), s)
          \<and> snd (gather_forward (sim_env r gs) cs (gs ! r) d) s = (Inr (concat_dim d gs), s)
          \<and> gather_backward (sim_env r gs) (fst (gather_forward (sim_env r gs) cs (gs ! r) d)) x s
              = (Inr (split_shard n r d x, None), s))
       \<and> sum_list (map (\<lambda>r. dot (split_shard n r d x) (gs ! r)) [0..<n]) = dot x (concat_dim d gs)
       \<and> dot (concat_dim d gs) x = sum_list (map (\<lambda>r. dot (gs ! r) (split_shard n r d x)) [0..<n]))"
proof (intro conjI impI)
  show "scatter_backward env (fst (scatter_forward env c x0 d0)) g
       = andthen (snd (gather_forward env c' g d0)) (\<lambda>u. returns (u, None))"
    by (simp add: op_defs comp_defs fun_eq_iff split: prod.splits sum.splits)
  show "gather_backward env (fst (gather_forward env c x0 d0)) g
       = andthen (snd (scatter_forward env c' g d0)) (\<lambda>u. returns (u, None))"
    by (simp add: op_defs comp_defs fun_eq_iff split: prod.splits sum.splits)
next
  assume h: "0 < n \<and> has_shape sh x \<and> d < length sh \<and> sh ! d = n * k
        \<and> length gs = n \<and> list_all (has_shape (sh[d := k])) gs"
  then have len: "length gs = n" by simp
  show "\<forall>r<n.
          snd (scatter_forward (sim_env r gs) cs x d) s = (Inr (split_shard n r d x), s)
          \<and> scatter_backward (sim_env r gs) (fst (scatter_forward (sim_env r gs) cs x d)) (gs ! r) s
              = (Inr (concat_dim d gs, None), s)
          \<and> snd (gather_forward (sim_env r gs) cs (gs ! r) d) s = (Inr (concat_dim d gs), s)
          \<and> gather_backward (sim_env r gs) (fst (gather_forward (sim_env r gs) cs (gs ! r) d)) x s
              = (Inr (split_shard n r d x, None), s)"
    by (simp add: op_defs comp_defs sim_calls len)
  from h have adj: "dot x (concat_dim d gs) = (\<Sum>r<n. dot (split_shard n r d x) (gs ! r))"
    by (intro dot_concat_split [where sh = sh and k = k]) (simp_all add: list_all_iff)
  then show "sum_list (map (\<lambda>r. dot (split_shard n r d x) (gs ! r)) [0..<n]) = dot x (concat_dim d gs)"
    by (simp add: sum_list_upt)
  have "dot (concat_dim d gs) x = dot x (concat_dim d gs)" by (rule dot_commute)
  also note adj
  also have "(\<Sum>r<n. dot (split_shard n r d x) (gs ! r)) = (\<Sum>r<n. dot (gs ! r) (split_shard n r d x))"
    by (rule sum.cong) (simp_all add: dot_commute)
  finally show "dot (concat_dim d gs) x = sum_list (map (\<lambda>r. dot (gs ! r) (split_shard n r d x)) [0..<n])"
    by (simp add: sum_list_upt)
qed

theorem scatter_gather_adjoint_witness:
  "(0 < (2::nat) \<and> has_shape [2, 4] example_matrix \<and> 1 < length [2, 4::nat]
      \<and> [2, 4] ! 1 = 2 * (2::nat) \<and> length example_shards = 2
      \<and> list_all (has_shape ([2, 4][1 := 2])) example_shards)
   \<and> (1::nat) < 2
   \<and> snd (scatter_forward (sim_env 1 example_shards :: test_env) new_ctx example_matrix 1) ()
        = (Inr (split_shard 2 1 1 example_matrix), ())
   \<and> scatter_backward (sim_env 1 example_shards :: test_env)
        (fst (scatter_forward (sim_env 1 example_shards :: test_env) new_ctx example_matrix 1))
        (example_shards ! 1) ()
        = (Inr (concat_dim 1 example_shards, None), ())
   \<and> snd (gather_forward (sim_env 1 example_shards :: test_env) new_ctx (example_shards ! 1) 1) ()
        = (Inr (concat_dim 1 example_shards), ())
   \<and> gather_backward (sim_env 1 example_shards :: test_env)
        (fst (gather_forward (sim_env 1 example_shards :: test_env) new_ctx (example_shards ! 1) 1))
        example_matrix ()
        = (Inr (split_shard 2 1 1 example_matrix, None), ())
   \<and> sum_list (map (\<lambda>r. dot (split_shard 2 r 1 example_matrix) (example_shards ! r)) [0..<2])
        = dot example_matrix (concat_dim 1 example_shards)
   \<and> dot (concat_dim 1 example_shards) example_matrix
        = sum_list (map (\<lambda>r. dot (example_shards ! r) (split_shard 2 r 1 example_matrix)) [0..<2])
   \<and> split_shard 2 1 1 example_matrix
        = Arr [Arr [Scalar 3, Scalar 4], Arr [Scalar 7, Scalar 8]]
   \<and> concat_dim 1 example_shards
        = Arr [Arr [Scalar 1, Scalar 0, Scalar 2, Scalar 0], Arr [Scalar 0, Scalar 1, Scalar 0, Scalar 2]]
   \<and> dot example_matrix (concat_dim 1 example_shards) = 29"
proof -
  have h: "0 < (2::nat) \<and> has_shape [2, 4] example_matrix \<and> 1 < length [2, 4::nat]
      \<and> [2, 4] ! 1 = 2 * (2::nat) \<and> length example_shards = 2
      \<and> list_all (has_shape ([2, 4][1 := 2])) example_shards"
    by code_simp
  have r: "(1::nat) < 2" by simp
  note t = scatter_gather_adjoint [where n = 2 and sh = "[2, 4]" and x = example_matrix
      and d = 1 and k = 2 and gs = example_shards and cs = new_ctx and s = "()",
      THEN conjunct2, THEN conjunct2, THEN mp, OF h]
  note t1 = t [THEN conjunct1, THEN spec, THEN mp, OF r]
  note t2 = t [THEN conjunct2]
  have v: "split_shard 2 1 1 example_matrix
        = Arr [Arr [Scalar 3, Scalar 4], Arr [Scalar 7, Scalar 8]]"
    "concat_dim 1 example_shards
        = Arr [Arr [Scalar 1, Scalar 0, Scalar 2, Scalar 0], Arr [Scalar 0, Scalar 1, Scalar 0, Scalar 2]]"
    "dot example_matrix (concat_dim 1 example_shards) = 29"
    by code_simp+
  from h r t1 t2 v show ?thesis by blast
qed

text \<open>
  Claim C2. For every input \<open>x\<close>, Copy's forward returns \<open>x\<close> itself, raises nothing and makes no
  outside call (the outside state is the one it started in). For every gradient \<open>g\<close>, Copy's
  backward looks the group "model\_parallel" up and returns what the all-reduce of \<open>g\<close> on that
  group returns. In a simulated group where the ranks hold the gradients \<open>gs\<close>, the backward
  on rank \<open>r\<close> returns the sum of all of \<open>gs\<close>.
\<close>

theorem copy_identity_allreduce:
  "copy_forward env c x s = (Inr x, s)
   \<and> copy_backward env c g s =
       (case group env ''model_parallel'' s of
          (Inl e, s') \<Rightarrow> (Inl e, s')
        | (Inr grp, s') \<Rightarrow> reduce env g grp s')
   \<and> (r < length gs \<longrightarrow>
        copy_backward (sim_env r gs) c' (gs ! r) s' = (Inr (sum_tensors gs), s'))"
  by (simp add: copy_forward_def copy_backward_def comp_defs sim_calls)

theorem copy_identity_allreduce_witness:
  "(2::nat) < length [Scalar (1::int), Scalar 10, Scalar 100, Scalar 1000]
   \<and> copy_backward (sim_env 2 [Scalar (1::int), Scalar 10, Scalar 100, Scalar 1000])
        (new_ctx :: nat ctx) (Scalar 100) () = (Inr (Scalar 1111), ())"
proof -
  let ?gs = "[Scalar (1::int), Scalar 10, Scalar 100, Scalar 1000]"
  have h: "2 < length ?gs" by simp
  have v: "sum_tensors ?gs = Scalar 1111" by simp
  have "copy_backward (sim_env 2 ?gs) (new_ctx :: nat ctx) (?gs ! 2) () = (Inr (sum_tensors ?gs), ())"
    by (rule copy_identity_allreduce [THEN conjunct2, THEN conjunct2, THEN mp, OF h])
  with h v show ?thesis by simp
qed

text \<open>
  Claim C3. For every input \<open>x\<close>, Reduce's forward looks the group "model\_parallel" up and returns what
  the all-reduce of \<open>x\<close> on that group returns. For every gradient \<open>g\<close>, Reduce's backward returns
  \<open>g\<close> itself, raises nothing and makes no outside call. In a simulated group where the ranks
  hold the inputs \<open>xs\<close>, the forward on rank \<open>r\<close> returns the sum of all of \<open>xs\<close>.
\<close>

theorem reduce_allreduce_identity:
  "reduce_forward env c x s =
       (case group env ''model_parallel'' s of
          (Inl e, s') \<Rightarrow> (Inl e, s')
        | (Inr grp, s') \<Rightarrow> reduce env x grp s')
   \<and> reduce_backward env c g s = (Inr g, s)
   \<and> (r < length xs \<longrightarrow>
        reduce_forward (sim_env r xs) c' (xs ! r) s' = (Inr (sum_tensors xs), s'))"
  by (simp add: reduce_forward_def reduce_backward_def comp_defs sim_calls)

theorem reduce_allreduce_identity_witness:
  "(0::nat) < length [Arr [Scalar (1::int), Scalar 2], Arr [Scalar 30, Scalar 40]]
   \<and> reduce_forward (sim_env 0 [Arr [Scalar (1::int), Scalar 2], Arr [Scalar 30, Scalar 40]])
        (new_ctx :: nat ctx) (Arr [Scalar 1, Scalar 2]) ()
      = (Inr (Arr [Scalar 31, Scalar 42]), ())"
proof -
  let ?xs = "[Arr [Scalar (1::int), Scalar 2], Arr [Scalar 30, Scalar 40]]"
  have h: "0 < length ?xs" by simp
  have v: "sum_tensors ?xs = Arr [Scalar 31, Scalar 42]" by simp
  have "reduce_forward (sim_env 0 ?xs) (new_ctx :: nat ctx) (?xs ! 0) () = (Inr (sum_tensors ?xs), ())"
    by (rule reduce_allreduce_identity [THEN conjunct2, THEN conjunct2, THEN mp, OF h])
  with h v show ?thesis by simp
qed

text \<open>
  Claim C4. Gather-Within's forward is Gather's forward: the same context afterwards and the same
  computation. Its backward, on the context the forward left, all-reduces the incoming gradient
  and then splits the reduced tensor along the recorded dimension. In a simulated group where
  the ranks hold the gradients \<open>gs\<close>, the backward on rank \<open>r\<close> returns shard \<open>r\<close> of the sum of
  all of \<open>gs\<close>, where Gather's backward returns shard \<open>r\<close> of the gradient of rank \<open>r\<close> alone.
\<close>

theorem gather_within_reduce_then_split:
  "gather_within_forward env c x d = gather_forward env c x d
   \<and> gather_within_backward env (fst (gather_within_forward env c x d)) g =
       andthen (group env ''model_parallel'') (\<lambda>grp.
       andthen (reduce env g grp) (\<lambda>red.
       andthen (group env ''model_parallel'') (\<lambda>grp'.
       andthen (split env red d grp') (\<lambda>t. returns (t, None)))))
   \<and> (r < length gs \<longrightarrow>
        gather_within_backward (sim_env r gs)
            (fst (gather_within_forward (sim_env r gs) c' x' d')) (gs ! r) s
          = (Inr (split_shard (length gs) r d' (sum_tensors gs), None), s)
        \<and> gather_backward (sim_env r gs)
            (fst (gather_forward (sim_env r gs) c' x' d')) (gs ! r) s
          = (Inr (split_shard (length gs) r d' (gs ! r), None), s))"
  by (simp add: op_defs comp_defs sim_calls)

theorem gather_within_reduce_then_split_witness:
  "1 < length example_grads
   \<and> gather_within_backward (sim_env 1 example_grads :: test_env)
        (fst (gather_within_forward (sim_env 1 example_grads :: test_env) new_ctx (Arr []) 0))
        (example_grads ! 1) ()
      = (Inr (split_shard (length example_grads) 1 0 (sum_tensors example_grads), None), ())
   \<and> gather_backward (sim_env 1 example_grads :: test_env)
        (fst (gather_forward (sim_env 1 example_grads :: test_env) new_ctx (Arr []) 0))
        (example_grads ! 1) ()
      = (Inr (split_shard (length example_grads) 1 0 (example_grads ! 1), None), ())
   \<and> split_shard (length example_grads) 1 0 (sum_tensors example_grads)
      = Arr [Scalar 33, Scalar 44]
   \<and> split_shard (length example_grads) 1 0 (example_grads ! 1) = Arr [Scalar 30, Scalar 40]"
proof -
  have h: "1 < length example_grads" by (simp add: example_grads_def)
  note t = gather_within_reduce_then_split [where r = 1 and gs = example_grads and c' = new_ctx
      and x' = "Arr []" and d' = 0 and s = "()", THEN conjunct2, THEN conjunct2, THEN mp, OF h]
  have v: "split_shard (length example_grads) 1 0 (sum_tensors example_grads)
      = Arr [Scalar 33, Scalar 44]"
    "split_shard (length example_grads) 1 0 (example_grads ! 1) = Arr [Scalar 30, Scalar 40]"
    by code_simp+
  from h t v show ?thesis by blast
qed

text \<open>
  Claim C5. In a simulated group of \<open>n\<close> ranks, let \<open>x\<close> be a tensor whose outermost axis has a length
  divisible by \<open>n\<close>. On every rank \<open>r\<close>, Scatter's forward along axis 0 returns shard \<open>r\<close> of \<open>x\<close>;
  and Gather's forward along axis 0, entered by the ranks with exactly these shards, returns \<open>x\<close>
  on every rank.
\<close>

theorem scatter_gather_round_trip:
  assumes "length ps = n" "n dvd length xs"
  shows "\<forall>r<n.
      snd (scatter_forward (sim_env r ps) c (Arr xs) 0) s
        = (Inr (split_shard n r 0 (Arr xs)), s)
    \<and> snd (gather_forward (sim_env r (map (\<lambda>i. split_shard n i 0 (Arr xs)) [0..<n])) c'
             (split_shard n r 0 (Arr xs)) 0) s'
        = (Inr (Arr xs), s')"
proof (intro allI impI)
  fix r assume r: "r < n"
  let ?shards = "map (\<lambda>i. split_shard n i 0 (Arr xs)) [0..<n]"
  from r have "?shards[r := split_shard n r 0 (Arr xs)] = ?shards"
    by (simp add: list_update_same_conv)
  moreover from r assms(2) have "concat_dim 0 ?shards = Arr xs"
    by (intro concat_dim_split_shard_0) simp_all
  ultimately show "snd (scatter_forward (sim_env r ps) c (Arr xs) 0) s
        = (Inr (split_shard n r 0 (Arr xs)), s)
    \<and> snd (gather_forward (sim_env r ?shards) c' (split_shard n r 0 (Arr xs)) 0) s'
        = (Inr (Arr xs), s')"
    using assms(1) by (simp add: op_defs comp_defs sim_calls)
qed

theorem scatter_gather_round_trip_witness:
  "length [Scalar 0, Scalar (0::int)] = 2 \<and> 2 dvd length example_input \<and> (1::nat) < 2
   \<and> snd (scatter_forward (sim_env 1 [Scalar 0, Scalar 0] :: test_env) new_ctx
            (Arr example_input) 0) ()
        = (Inr (split_shard 2 1 0 (Arr example_input)), ())
   \<and> snd (gather_forward
            (sim_env 1 (map (\<lambda>i. split_shard 2 i 0 (Arr example_input)) [0..<2]) :: test_env)
            new_ctx (split_shard 2 1 0 (Arr example_input)) 0) ()
        = (Inr (Arr example_input), ())
   \<and> map (\<lambda>i. split_shard 2 i 0 (Arr example_input)) [0..<2]
        = [Arr [Scalar 1, Scalar 2], Arr [Scalar 3, Scalar 4]]"
proof -
  have h1: "length [Scalar 0, Scalar (0::int)] = 2" by simp
  have h2: "2 dvd length example_input" by (simp add: example_input_def)
  have r: "(1::nat) < 2" by simp
  note t = scatter_gather_round_trip [OF h1 h2, where c = new_ctx and s = "()"
      and c' = new_ctx and s' = "()", THEN spec, THEN mp, OF r]
  have v: "map (\<lambda>i. split_shard 2 i 0 (Arr example_input)) [0..<2]
      = [Arr [Scalar 1, Scalar 2], Arr [Scalar 3, Scalar 4]]"
    by code_simp
  from h1 h2 r t v show ?thesis by blast
qed

text \<open>
  Claim C6, as amended. For Scatter, Gather and Gather-Within: a forward called with dimension
  \<open>d\<close> leaves a context whose \<^verbatim>\<open>dim\<close> is \<open>d\<close>, whatever the context held before; the backward,
  which takes the context and the gradient only, run on that context gives \<open>d\<close> to its
  collective, and \<open>d\<close> is the only dimension any of its outside calls receives, in every
  environment and outside state. The dimension comes from the context alone: on a context
  without \<^verbatim>\<open>dim\<close> the three backward methods raise \<open>AttributeError\<close> (Scatter's and Gather's
  before any outside call, Gather-Within's after its all-reduce). The module never removes
  the record: after a backward has returned, a further backward on the same context
  still gives \<open>d\<close>, and no other dimension, to its collective.
\<close>

theorem dim_recorded_then_used:
  "dim (fst (scatter_forward env c x d)) = Some d
   \<and> scatter_backward env (fst (scatter_forward env c x d)) g =
       andthen (group env ''model_parallel'') (\<lambda>grp.
       andthen (gather env g d grp) (\<lambda>t. returns (t, None)))
   \<and> list_all (uses_dim d)
        (events (scatter_backward (logged env) (fst (scatter_forward env c x d)) g) s)
   \<and> list_all (uses_dim d)
        (events (followed_by
           (scatter_backward (logged env) (fst (scatter_forward env c x d)) g)
           (scatter_backward (logged env) (fst (scatter_forward env c x d)) g')) s)
   \<and> dim (fst (gather_forward env c x d)) = Some d
   \<and> gather_backward env (fst (gather_forward env c x d)) g =
       andthen (group env ''model_parallel'') (\<lambda>grp.
       andthen (split env g d grp) (\<lambda>t. returns (t, None)))
   \<and> list_all (uses_dim d)
        (events (gather_backward (logged env) (fst (gather_forward env c x d)) g) s)
   \<and> list_all (uses_dim d)
        (events (followed_by
           (gather_backward (logged env) (fst (gather_forward env c x d)) g)
           (gather_backward (logged env) (fst (gather_forward env c x d)) g')) s)
   \<and> dim (fst (gather_within_forward env c x d)) = Some d
   \<and> gather_within_backward env (fst (gather_within_forward env c x d)) g =
       andthen (group env ''model_parallel'') (\<lambda>grp.
       andthen (reduce env g grp) (\<lambda>red.
       andthen (group env ''model_parallel'') (\<lambda>grp'.
       andthen (split env red d grp') (\<lambda>t. returns (t, None)))))
   \<and> list_all (uses_dim d)
        (events (gather_within_backward (logged env)
                   (fst (gather_within_forward env c x d)) g) s)
   \<and> list_all (uses_dim d)
        (events (followed_by
           (gather_within_backward (logged env) (fst (gather_within_forward env c x d)) g)
           (gather_within_backward (logged env) (fst (gather_within_forward env c x d)) g')) s)
   \<and> scatter_backward env \<lparr>dim = None\<rparr> g s = (Inl (AttributeError ''dim''), s)
   \<and> gather_backward env \<lparr>dim = None\<rparr> g s = (Inl (AttributeError ''dim''), s)
   \<and> (group env ''model_parallel'' s = (Inr grp, s1) \<and> reduce env g grp s1 = (Inr red, s2) \<longrightarrow>
        gather_within_backward env \<lparr>dim = None\<rparr> g s = (Inl (AttributeError ''dim''), s2))"
  by (intro conjI events_scatter_backward events_gather_backward events_gather_within_backward
        events_scatter_backward_twice events_gather_backward_twice
        events_gather_within_backward_twice)
     (simp_all add: op_defs comp_defs)

theorem dim_recorded_then_used_witness:
  "dim (fst (scatter_forward (sim_env 0 example_columns :: test_env) new_ctx
              (Arr [Arr [Scalar 5, Scalar 6]]) 1)) = Some 1
   \<and> list_all (uses_dim 1)
        (events (scatter_backward (logged (sim_env 0 example_columns :: test_env))
           (fst (scatter_forward (sim_env 0 example_columns :: test_env) new_ctx
                   (Arr [Arr [Scalar 5, Scalar 6]]) 1))
           (Arr [Arr [Scalar 1]])) ())
   \<and> events (scatter_backward (logged (sim_env 0 example_columns :: test_env))
           (fst (scatter_forward (sim_env 0 example_columns :: test_env) new_ctx
                   (Arr [Arr [Scalar 5, Scalar 6]]) 1))
           (Arr [Arr [Scalar 1]])) ()
      = [(Group_call ''model_parallel'', None), (Gather_call (Arr [Arr [Scalar 1]]) 1, None)]
   \<and> (group (sim_env 0 example_columns :: test_env) ''model_parallel'' ()
          = (Inr \<lparr>gsize = 2, grank = 0\<rparr>, ())
        \<and> reduce (sim_env 0 example_columns :: test_env) (Arr [Arr [Scalar 1]])
            \<lparr>gsize = 2, grank = 0\<rparr> ()
          = (Inr (Arr [Arr [Scalar 3]]), ()))
   \<and> gather_within_backward (sim_env 0 example_columns :: test_env) \<lparr>dim = None\<rparr>
        (Arr [Arr [Scalar 1]]) ()
      = (Inl (AttributeError ''dim''), ())"
proof -
  let ?E = "sim_env 0 example_columns :: test_env"
  let ?c = "fst (scatter_forward ?E new_ctx (Arr [Arr [Scalar 5, Scalar 6]]) 1)"
  let ?g = "Arr [Arr [Scalar (1::int)]]"
  note t = dim_recorded_then_used [where env = ?E and c = new_ctx
      and x = "Arr [Arr [Scalar 5, Scalar 6]]" and d = 1 and g = ?g and s = "()"
      and grp = "\<lparr>gsize = 2, grank = 0\<rparr>" and ?s1.0 = "()" and red = "Arr [Arr [Scalar 3]]"
      and ?s2.0 = "()"]
  from t have 1: "dim ?c = Some 1" by (rule conjunct1)
  from t have 2: "list_all (uses_dim 1) (events (scatter_backward (logged ?E) ?c ?g) ())"
    by (rule conjunct2 [THEN conjunct2, THEN conjunct1])
  have 3: "events (scatter_backward (logged ?E) ?c ?g) ()
      = [(Group_call ''model_parallel'', None), (Gather_call ?g 1, None)]"
    by (simp add: op_defs comp_defs log_defs sim_env_def)
  have 4: "group ?E ''model_parallel'' () = (Inr \<lparr>gsize = 2, grank = 0\<rparr>, ())
        \<and> reduce ?E ?g \<lparr>gsize = 2, grank = 0\<rparr> () = (Inr (Arr [Arr [Scalar 3]]), ())"
    by (simp add: sim_calls example_columns_def)
  from t 4 have 5: "gather_within_backward ?E \<lparr>dim = None\<rparr> ?g () = (Inl (AttributeError ''dim''), ())"
    by blast
  from 1 2 3 4 5 show ?thesis by blast
qed

text \<open>
  The last clause of C6 as it was stated, that the recorded dimension exists only until the
  one backward of its call has completed, does not hold of the module: no method deletes
  \<^verbatim>\<open>ctx.dim\<close> or assigns to the context after \<^verbatim>\<open>forward\<close>. On rank 0 of a simulated group of two
  ranks, Scatter's forward with dimension 1 leaves a context with \<^verbatim>\<open>dim\<close> 1; its backward
  returns; and a second backward on the same context does not raise \<open>AttributeError\<close> but
  gathers along dimension 1 once more.
\<close>

theorem dim_outlives_backward_counterexample:
  "dim (fst (scatter_forward (sim_env 0 example_columns :: test_env) new_ctx
              (Arr [Arr [Scalar 5, Scalar 6]]) 1)) = Some 1
   \<and> fst (scatter_backward (sim_env 0 example_columns :: test_env)
          (fst (scatter_forward (sim_env 0 example_columns :: test_env) new_ctx
                  (Arr [Arr [Scalar 5, Scalar 6]]) 1))
          (Arr [Arr [Scalar 1]]) ())
     = Inr (Arr [Arr [Scalar 1, Scalar 2]], None)
   \<and> followed_by
        (scatter_backward (sim_env 0 example_columns :: test_env)
          (fst (scatter_forward (sim_env 0 example_columns :: test_env) new_ctx
                  (Arr [Arr [Scalar 5, Scalar 6]]) 1))
          (Arr [Arr [Scalar 1]]))
        (scatter_backward (sim_env 0 example_columns :: test_env)
          (fst (scatter_forward (sim_env 0 example_columns :: test_env) new_ctx
                  (Arr [Arr [Scalar 5, Scalar 6]]) 1))
          (Arr [Arr [Scalar 7]])) ()
     = (Inr (Arr [Arr [Scalar 7, Scalar 2]], None), ())
   \<and> followed_by
        (scatter_backward (sim_env 0 example_columns :: test_env)
          (fst (scatter_forward (sim_env 0 example_columns :: test_env) new_ctx
                  (Arr [Arr [Scalar 5, Scalar 6]]) 1))
          (Arr [Arr [Scalar 1]]))
        (scatter_backward (sim_env 0 example_columns :: test_env)
          (fst (scatter_forward (sim_env 0 example_columns :: test_env) new_ctx
                  (Arr [Arr [Scalar 5, Scalar 6]]) 1))
          (Arr [Arr [Scalar 7]])) ()
     \<noteq> (Inl (AttributeError ''dim''), ())
   \<and> events (followed_by
        (scatter_backward (logged (sim_env 0 example_columns :: test_env))
          (fst (scatter_forward (sim_env 0 example_columns :: test_env) new_ctx
                  (Arr [Arr [Scalar 5, Scalar 6]]) 1))
          (Arr [Arr [Scalar 1]]))
        (scatter_backward (logged (sim_env 0 example_columns :: test_env))
          (fst (scatter_forward (sim_env 0 example_columns :: test_env) new_ctx
                  (Arr [Arr [Scalar 5, Scalar 6]]) 1))
          (Arr [Arr [Scalar 7]]))) ()
     = [(Group_call ''model_parallel'', None), (Gather_call (Arr [Arr [Scalar 1]]) 1, None),
        (Group_call ''model_parallel'', None), (Gather_call (Arr [Arr [Scalar 7]]) 1, None)]"
  by (simp add: followed_by_def op_defs comp_defs log_defs sim_env_def example_columns_def)

text \<open>
  Claim C7. In an environment where the group "model\_parallel" is found and reduce, split and gather
  on it return their argument (a group of one rank), every forward returns its input and every
  backward returns the incoming gradient (with \<open>None\<close> for the dimension where the backward
  returns a pair), for all inputs, gradients and dimensions.
\<close>

theorem single_rank_all_identity:
  assumes "single_rank env"
  shows "copy_forward env c x s = (Inr x, s)
   \<and> copy_backward env c g s = (Inr g, s)
   \<and> reduce_forward env c x s = (Inr x, s)
   \<and> reduce_backward env c g s = (Inr g, s)
   \<and> snd (scatter_forward env c x d) s = (Inr x, s)
   \<and> scatter_backward env (fst (scatter_forward env c x d)) g s = (Inr (g, None), s)
   \<and> snd (gather_forward env c x d) s = (Inr x, s)
   \<and> gather_backward env (fst (gather_forward env c x d)) g s = (Inr (g, None), s)
   \<and> snd (gather_within_forward env c x d) s = (Inr x, s)
   \<and> gather_within_backward env (fst (gather_within_forward env c x d)) g s = (Inr (g, None), s)"
proof -
  from assms obtain grp where
    a: "group env ''model_parallel'' s = (Inr grp, s)"
    and b: "\<And>x s'. reduce env x grp s' = (Inr x, s')"
    and c: "\<And>x d s'. split env x d grp s' = (Inr x, s')"
    and d: "\<And>x d s'. gather env x d grp s' = (Inr x, s')"
    unfolding single_rank_def by blast
  show ?thesis by (simp add: op_defs comp_defs a b c d)
qed

theorem single_rank_all_identity_witness:
  "single_rank (sim_env 0 [Scalar 0] :: test_env)
   \<and> copy_backward (sim_env 0 [Scalar 0] :: test_env) new_ctx (Arr [Scalar 1, Scalar 2]) ()
        = (Inr (Arr [Scalar 1, Scalar 2]), ())
   \<and> snd (scatter_forward (sim_env 0 [Scalar 0] :: test_env) new_ctx (Arr [Scalar 3, Scalar 4]) 0) ()
        = (Inr (Arr [Scalar 3, Scalar 4]), ())
   \<and> gather_within_backward (sim_env 0 [Scalar 0] :: test_env)
        (fst (gather_within_forward (sim_env 0 [Scalar 0] :: test_env) new_ctx
                (Arr [Scalar 3, Scalar 4]) 0))
        (Arr [Scalar 1, Scalar 2]) ()
        = (Inr (Arr [Scalar 1, Scalar 2], None), ())"
proof -
  let ?E = "sim_env 0 [Scalar 0] :: test_env"
  have h: "single_rank ?E" by (rule single_rank_sim)
  note t = single_rank_all_identity [OF h, where c = new_ctx and x = "Arr [Scalar 3, Scalar 4]"
      and g = "Arr [Scalar 1, Scalar 2]" and d = 0 and s = "()"]
  from h t show ?thesis by simp
qed

text \<open>
  Claim C8. Each of the ten methods passes errors through: run in any environment, a method returns
  an exception exactly if the last outside call it made raised, the exception it returns is
  that one, and every outside call before it had succeeded; so no call is made again or made
  after a failure, no failure is turned into a result, and no exception is replaced by another.
  With no outside call (Copy's forward, Reduce's backward) there is no exception. A backward
  is run on the context its forward left.
\<close>

theorem errors_pass_through:
  "faithful (copy_forward (logged env) c x) (copy_forward env c x) s
   \<and> faithful (copy_backward (logged env) c g) (copy_backward env c g) s
   \<and> faithful (reduce_forward (logged env) c x) (reduce_forward env c x) s
   \<and> faithful (reduce_backward (logged env) c g) (reduce_backward env c g) s
   \<and> faithful (snd (scatter_forward (logged env) c x d)) (snd (scatter_forward env c x d)) s
   \<and> faithful (scatter_backward (logged env) (fst (scatter_forward (logged env) c x d)) g)
               (scatter_backward env (fst (scatter_forward env c x d)) g) s
   \<and> faithful (snd (gather_forward (logged env) c x d)) (snd (gather_forward env c x d)) s
   \<and> faithful (gather_backward (logged env) (fst (gather_forward (logged env) c x d)) g)
               (gather_backward env (fst (gather_forward env c x d)) g) s
   \<and> faithful (snd (gather_within_forward (logged env) c x d))
               (snd (gather_within_forward env c x d)) s
   \<and> faithful (gather_within_backward (logged env)
                  (fst (gather_within_forward (logged env) c x d)) g)
               (gather_within_backward env (fst (gather_within_forward env c x d)) g) s"
  by (intro conjI faithful_copy_forward faithful_copy_backward faithful_reduce_forward
      faithful_reduce_backward faithful_scatter_forward faithful_scatter_backward
      faithful_gather_forward faithful_gather_backward faithful_gather_within_forward
      faithful_gather_within_backward)

theorem errors_pass_through_witness:
  "faithful (copy_backward (logged timeout_env) (new_ctx :: nat ctx) (Scalar (1::int)))
            (copy_backward timeout_env (new_ctx :: nat ctx) (Scalar (1::int))) ()
   \<and> copy_backward timeout_env (new_ctx :: nat ctx) (Scalar (1::int)) ()
        = (Inl (External ''timeout''), ())
   \<and> events (copy_backward (logged timeout_env) (new_ctx :: nat ctx) (Scalar (1::int))) ()
        = [(Group_call ''model_parallel'', None),
           (Reduce_call (Scalar 1), Some (External ''timeout''))]
   \<and> gather_within_backward no_group_env \<lparr>dim = Some (0::nat)\<rparr> (Scalar (1::int)) ()
        = (Inl (External ''group not found''), ())
   \<and> events (gather_within_backward (logged no_group_env) \<lparr>dim = Some (0::nat)\<rparr> (Scalar (1::int))) ()
        = [(Group_call ''model_parallel'', Some (External ''group not found''))]"
proof -
  have "faithful (copy_backward (logged timeout_env) (new_ctx :: nat ctx) (Scalar (1::int)))
            (copy_backward timeout_env (new_ctx :: nat ctx) (Scalar (1::int))) ()"
    by (rule errors_pass_through [THEN conjunct2, THEN conjunct1])
  then show ?thesis
    by (simp add: op_defs comp_defs log_defs timeout_env_def no_group_env_def)
qed

text \<open>
  Claim C9. Whenever the backward of Scatter, Gather or Gather-Within returns, it returns a pair whose
  second component, the gradient of the dimension argument, is \<open>None\<close>. The backward of Copy
  and of Reduce return a bare tensor (their result type has no second component): Copy's is
  the tensor the all-reduce returned, Reduce's is the incoming gradient.
\<close>

theorem backward_dim_gradient_is_None:
  "(fst (scatter_backward env c g s) = Inr p1 \<longrightarrow> snd p1 = None)
   \<and> (fst (gather_backward env c g s) = Inr p2 \<longrightarrow> snd p2 = None)
   \<and> (fst (gather_within_backward env c g s) = Inr p3 \<longrightarrow> snd p3 = None)
   \<and> (fst (copy_backward env c g s) = Inr t \<longrightarrow>
        (\<exists>grp s1 s2. group env ''model_parallel'' s = (Inr grp, s1)
            \<and> reduce env g grp s1 = (Inr t, s2)))
   \<and> fst (reduce_backward env c g s) = Inr g"
  by (auto simp add: op_defs comp_defs split: option.splits prod.splits sum.splits)

theorem backward_dim_gradient_is_None_witness:
  "fst (scatter_backward (sim_env 0 [Arr [Scalar (1::int), Scalar 3], Arr [Scalar 2, Scalar 4]])
         \<lparr>dim = Some 0\<rparr> (Arr [Scalar 1, Scalar 3]) ())
     = Inr (Arr [Scalar 1, Scalar 3, Scalar 2, Scalar 4], None)
   \<and> fst (gather_backward (sim_env 0 [Arr [Scalar (1::int), Scalar 3], Arr [Scalar 2, Scalar 4]])
         \<lparr>dim = Some 0\<rparr> (Arr [Scalar 1, Scalar 3]) ())
     = Inr (Arr [Scalar 1], None)
   \<and> fst (gather_within_backward (sim_env 0 [Arr [Scalar (1::int), Scalar 3], Arr [Scalar 2, Scalar 4]])
         \<lparr>dim = Some 0\<rparr> (Arr [Scalar 1, Scalar 3]) ())
     = Inr (Arr [Scalar 3], None)
   \<and> fst (copy_backward (sim_env 0 [Arr [Scalar (1::int), Scalar 3], Arr [Scalar 2, Scalar 4]])
         \<lparr>dim = Some (0::nat)\<rparr> (Arr [Scalar 1, Scalar 3]) ())
     = Inr (Arr [Scalar 3, Scalar 7])
   \<and> snd (Arr [Scalar (1::int), Scalar 3, Scalar 2, Scalar 4], None :: int tensor option) = None"
proof -
  let ?E = "sim_env 0 [Arr [Scalar (1::int), Scalar 3], Arr [Scalar 2, Scalar 4]]
              :: (int tensor, nat, sim_group, unit) env"
  let ?c = "\<lparr>dim = Some (0::nat)\<rparr>"
  let ?g = "Arr [Scalar (1::int), Scalar 3]"
  have h1: "fst (scatter_backward ?E ?c ?g ()) = Inr (Arr [Scalar 1, Scalar 3, Scalar 2, Scalar 4], None)"
    by (simp add: op_defs comp_defs sim_calls)
  have h2: "fst (gather_backward ?E ?c ?g ()) = Inr (Arr [Scalar 1], None)"
    by (simp add: op_defs comp_defs sim_calls)
  have h3: "fst (gather_within_backward ?E ?c ?g ()) = Inr (Arr [Scalar 3], None)"
    by (simp add: op_defs comp_defs sim_calls)
  have h4: "fst (copy_backward ?E ?c ?g ()) = Inr (Arr [Scalar 3, Scalar 7])"
    by (simp add: op_defs comp_defs sim_calls)
  have c1: "snd (Arr [Scalar (1::int), Scalar 3, Scalar 2, Scalar 4], None :: int tensor option) = None"
    by (rule backward_dim_gradient_is_None [THEN conjunct1, THEN mp, OF h1])
  have c2: "snd (Arr [Scalar (1::int)], None :: int tensor option) = None"
    by (rule backward_dim_gradient_is_None [THEN conjunct2, THEN conjunct1, THEN mp, OF h2])
  have c3: "snd (Arr [Scalar (3::int)], None :: int tensor option) = None"
    by (rule backward_dim_gradient_is_None
          [THEN conjunct2, THEN conjunct2, THEN conjunct1, THEN mp, OF h3])
  from h1 h2 h3 h4 c1 c2 c3 show ?thesis by blast
qed

text \<open>
  Claim C10. For each of the five classes, \<^verbatim>\<open>symbolic\<close> is the same computation of the input (and of
  the dimension, where there is one) as \<^verbatim>\<open>forward\<close>: the same outside calls with the same
  arguments, hence the same result, exception and outside state, whatever the graph argument
  and the context are. (\<^verbatim>\<open>forward\<close> also assigns \<^verbatim>\<open>ctx.dim\<close>, which \<^verbatim>\<open>symbolic\<close> has no context
  for.)
\<close>

theorem symbolic_agrees_with_forward:
  "copy_symbolic env graph x = copy_forward env c x
   \<and> reduce_symbolic env graph x = reduce_forward env c x
   \<and> scatter_symbolic env graph x d = snd (scatter_forward env c x d)
   \<and> gather_symbolic env graph x d = snd (gather_forward env c x d)
   \<and> gather_within_symbolic env graph x d = snd (gather_within_forward env c x d)"
  by (simp add: op_defs)

end
